theory Spec2Isabelle
  imports Complex_Main
begin

section \<open>Website testing automation tool: orchestrator and phase testers\<close>

text \<open>
  A shallow embedding of \<^verbatim>\<open>src/test-runner.js\<close> and of the four testers under
  \<^verbatim>\<open>src/modules/\<close>. JavaScript numbers are modelled as reals (counts and HTTP status
  codes as naturals); an object with optional fields is a record whose optional fields
  have an \<open>option\<close> type, \<open>None\<close> standing for \<^verbatim>\<open>undefined\<close>. Everything the
  browser, the file system or the clock answers is an input of the model: each tester
  takes the answers it would obtain from the page, an exception being the \<open>Inl\<close> branch of a
  sum carrying the exception's message.
\<close>

subsection \<open>Numbers in template strings\<close>

text \<open>
  \<^verbatim>\<open>Math.round(x)\<close> rounds half up. An integer below \<open>10^21\<close> in magnitude prints in
  plain decimal in a template literal; \<open>show_int\<close> is that rendering.
\<close>

definition js_round :: "real \<Rightarrow> int" where
  "js_round x = \<lfloor>x + 1 / 2\<rfloor>"

function show_nat :: "nat \<Rightarrow> string" where
  "show_nat n =
     (if n < 10 then [''0123456789'' ! n]
      else show_nat (n div 10) @ [''0123456789'' ! (n mod 10)])"
  by pat_completeness auto
termination
  by (relation "measure id") auto

declare show_nat.simps [simp del]

definition show_int :: "int \<Rightarrow> string" where
  "show_int i = (if i < 0 then CHR ''-'' # show_nat (nat (- i)) else show_nat (nat i))"

text \<open>\<^verbatim>\<open>a || b\<close> on an optional string: \<^verbatim>\<open>undefined\<close> and the empty string are falsy.\<close>

fun truthy :: "string option \<Rightarrow> bool" where
  "truthy None = False"
| "truthy (Some s) = (s \<noteq> [])"

fun or_str :: "string option \<Rightarrow> string \<Rightarrow> string" where
  "or_str None d = d"
| "or_str (Some s) d = (if s = [] then d else s)"

text \<open>\<^verbatim>\<open>x || 0\<close> on an optional number: \<^verbatim>\<open>undefined\<close> and \<open>0\<close> both give \<open>0\<close>.\<close>

fun or_zero :: "real option \<Rightarrow> real" where
  "or_zero None = 0"
| "or_zero (Some v) = v"

text \<open>\<^verbatim>\<open>xs || []\<close> on an optional array.\<close>

fun or_empty :: "'a list option \<Rightarrow> 'a list" where
  "or_empty None = []"
| "or_empty (Some xs) = xs"

subsection \<open>Issues and phase results\<close>

datatype severity = Error | Warning

fun severity_str :: "severity \<Rightarrow> string" where
  "severity_str Error = ''error''"
| "severity_str Warning = ''warning''"

text \<open>
  The supporting evidence of an issue: an axe node \<^verbatim>\<open>{html, target}\<close>, or a descriptor
  computed inside the page by one of the responsive queries (kept as the page returned it).
\<close>

datatype element_info = AxeNode string "string list" | PageElement string

record issue =
  type :: string
  description :: string
  severity :: severity
  impact :: "string option"
  location :: "string option"
  suggestion :: "string option"
  elements :: "element_info list option"

text \<open>
  What every tester returns: \<^verbatim>\<open>success\<close> is always a boolean, \<^verbatim>\<open>error\<close> and
  \<^verbatim>\<open>issues\<close> may be missing. Each tester's own result extends this record.
\<close>

record phase_result =
  success :: bool
  error :: "string option"
  issues :: "issue list option"

text \<open>\<^verbatim>\<open>result.issues || []\<close>\<close>

definition issues_or_empty :: "'a phase_result_scheme \<Rightarrow> issue list" where
  "issues_or_empty r = or_empty (issues r)"

subsection \<open>\<^verbatim>\<open>config.js\<close>\<close>

datatype viewport = Viewport (vp_width: nat) (vp_height: nat) (vp_name: string)

definition config_viewports :: "viewport list" where
  "config_viewports =
     [Viewport 1920 1080 ''Desktop'', Viewport 1366 768 ''Laptop'',
      Viewport 768 1024 ''Tablet'', Viewport 375 667 ''Mobile'']"

definition config_performance_thresholds :: "(string \<times> real) list" where
  "config_performance_thresholds =
     [(''performance'', 0.7), (''accessibility'', 0.9), (''best-practices'', 0.9), (''seo'', 0.8)]"

subsection \<open>\<^verbatim>\<open>PerformanceTester\<close>\<close>

text \<open>The arrow function \<^verbatim>\<open>calculateScore\<close> of \<^verbatim>\<open>runTests\<close>.\<close>

definition calculateScore :: "real \<Rightarrow> real \<Rightarrow> real \<Rightarrow> real" where
  "calculateScore v mn mx =
     (let score = 1 - min (max ((v - mn) / (mx - mn)) 0) 1
      in max 0 (min 1 score))"

datatype resource_timing =
  Resource (res_name: string) (res_duration: real) (transferSize: "real option") (initiatorType: string)

text \<open>
  What the page answers to the performance tester: the array of \<^verbatim>\<open>{name, value}\<close> of
  \<^verbatim>\<open>Performance.getMetrics\<close> and the resource timing entries.
\<close>

record perf_data =
  cdp_metrics :: "(string \<times> real) list"
  resourceTimings :: "resource_timing list"

record perf_metrics =
  domContentLoaded :: real
  firstPaint :: real
  firstContentfulPaint :: real
  loadTime :: real
  resourceCount :: nat
  totalResourceSize :: real

record performance_result = phase_result +
  scores :: "(string \<times> real) list option"
  metrics :: "perf_metrics option"
  resourceCounts :: "(string \<times> nat) list option"

text \<open>\<^verbatim>\<open>metrics[metric.name] = metric.value\<close> for each entry: a later entry overwrites.\<close>

definition metrics_object :: "(string \<times> real) list \<Rightarrow> (string \<rightharpoonup> real)" where
  "metrics_object ms = fold (\<lambda>(n, v) m. m(n \<mapsto> v)) ms Map.empty"

text \<open>\<^verbatim>\<open>resourceCounts[type] = (resourceCounts[type] || 0) + 1\<close>, keys in insertion order.\<close>

fun count_type :: "string \<Rightarrow> (string \<times> nat) list \<Rightarrow> (string \<times> nat) list" where
  "count_type t [] = [(t, 1)]"
| "count_type t (p # ps) = (if fst p = t then (t, snd p + 1) # ps else p # count_type t ps)"

definition count_resources :: "resource_timing list \<Rightarrow> (string \<times> nat) list" where
  "count_resources rs =
     fold (\<lambda>r counts. count_type (if initiatorType r = [] then ''other'' else initiatorType r) counts)
       rs []"

definition warning_issue :: "string \<Rightarrow> string \<Rightarrow> string \<Rightarrow> issue" where
  "warning_issue t d s =
     \<lparr>type = t, description = d, severity = Warning, impact = None, location = None,
      suggestion = Some s, elements = None\<rparr>"

text \<open>The synthetic issue of a \<^verbatim>\<open>catch\<close> block: type, message and severity only.\<close>

definition error_issue :: "string \<Rightarrow> string \<Rightarrow> issue" where
  "error_issue t msg =
     \<lparr>type = t, description = msg, severity = Error, impact = None, location = None,
      suggestion = None, elements = None\<rparr>"

text \<open>The body of \<^verbatim>\<open>Object.entries(scores).forEach\<close>: one warning per score under its threshold.\<close>

definition threshold_issue :: "(string \<times> real) list \<Rightarrow> string \<times> real \<Rightarrow> issue list" where
  "threshold_issue thresholds entry =
     (let category = fst entry; score = snd entry;
          threshold = or_zero (map_of thresholds category)
      in if score < threshold
         then [warning_issue ''Performance Issue''
                 (category @ '' score ('' @ show_int (js_round (score * 100))
                    @ ''%) is below threshold ('' @ show_int (js_round (threshold * 100)) @ ''%)'')
                 (''Improve '' @ category @ '' by following web performance best practices'')]
         else [])"

definition performance_scores :: "real \<Rightarrow> real \<Rightarrow> (string \<times> real) list" where
  "performance_scores fcp load =
     [(''performance'', calculateScore fcp 1000 3000 * 0.4 + calculateScore load 2000 6000 * 0.6),
      (''accessibility'', 0.85), (''best-practices'', 0.9), (''seo'', 0.85)]"

text \<open>The issues pushed after the measurements, in the order of the source.\<close>

definition performance_issues ::
    "(string \<times> real) list \<Rightarrow> real \<Rightarrow> real \<Rightarrow> real \<Rightarrow> nat \<Rightarrow> (string \<times> real) list \<Rightarrow> issue list" where
  "performance_issues thresholds loadT fcp totalSize totalResources sc =
     (if loadT > 3000
      then [warning_issue ''Slow Page Load''
              (''Page load time is slow: '' @ show_int (js_round loadT) @ ''ms'')
              ''Optimize page resources and server response time'']
      else [])
     @ (if fcp > 2000
        then [warning_issue ''Slow First Contentful Paint''
                (''First Contentful Paint is slow: '' @ show_int (js_round fcp) @ ''ms'')
                ''Optimize critical rendering path and reduce render-blocking resources'']
        else [])
     @ (if totalSize > 3 * 1024 * 1024
        then [warning_issue ''Large Page Size''
                (''Page resources are large: '' @ show_int (js_round (totalSize / 1024)) @ ''KB'')
                ''Optimize and compress resources, use lazy loading for images and videos'']
        else [])
     @ (if totalResources > 80
        then [warning_issue ''Too Many Resources''
                (''Page loads '' @ show_nat totalResources @ '' resources'')
                ''Reduce the number of resources by combining files, using sprites, or removing unnecessary resources'']
        else [])
     @ concat (map (threshold_issue thresholds) sc)"

text \<open>
  \<^verbatim>\<open>PerformanceTester.runTests\<close>. \<open>thresholds\<close> is \<^verbatim>\<open>this.options.thresholds\<close>,
  \<open>has_browser\<close> tells whether \<^verbatim>\<open>this.browserManager.browser\<close> is set, and \<open>answers\<close> is
  \<open>Inl msg\<close> when one of the awaited calls on the page throws.
\<close>

definition performance_runTests ::
    "(string \<times> real) list \<Rightarrow> bool \<Rightarrow> string + perf_data \<Rightarrow> performance_result" where
  "performance_runTests thresholds has_browser answers =
     (case (if \<not> has_browser then Inl ''Browser not initialized'' else answers) of
        Inl msg \<Rightarrow>
          \<lparr>success = False, error = Some msg,
           issues = Some [error_issue ''Performance Test Error'' msg],
           scores = None, metrics = None, resourceCounts = None\<rparr>
      | Inr d \<Rightarrow>
          (let m = metrics_object (cdp_metrics d);
               navigationStart = or_zero (m ''NavigationStart'');
               domContentLoadedTime = or_zero (m ''DomContentLoaded'') - navigationStart;
               firstPaintTime = or_zero (m ''FirstPaint'') - navigationStart;
               firstContentfulPaintTime = or_zero (m ''FirstContentfulPaint'') - navigationStart;
               loadT = or_zero (m ''LoadEventEnd'') - navigationStart;
               totalSize = foldl (\<lambda>t r. t + or_zero (transferSize r)) 0 (resourceTimings d);
               counts = count_resources (resourceTimings d);
               sc = performance_scores firstContentfulPaintTime loadT;
               totalResources = length (resourceTimings d);
               found = performance_issues thresholds loadT firstContentfulPaintTime totalSize
                         totalResources sc
           in \<lparr>success = (length found = 0), error = None, issues = Some found,
               scores = Some sc,
               metrics = Some \<lparr>domContentLoaded = domContentLoadedTime, firstPaint = firstPaintTime,
                                firstContentfulPaint = firstContentfulPaintTime, loadTime = loadT,
                                resourceCount = totalResources, totalResourceSize = totalSize\<rparr>,
               resourceCounts = Some counts\<rparr>))"

subsection \<open>\<^verbatim>\<open>AccessibilityTester\<close>\<close>

datatype axe_node = Node (html: string) (target: "string list")

datatype axe_finding =
  Finding (rule_id: string) (rule_help: "string option") (rule_description: string)
    (rule_impact: "string option") (helpUrl: "string option") (nodes: "axe_node list option")

text \<open>
  The object the in-page promise resolves to: the results of \<^verbatim>\<open>axe.run()\<close>, or
  \<^verbatim>\<open>{error: err.message}\<close> when the engine rejects.
\<close>

datatype axe_results =
  AxeResults (axe_error: "string option") (violations: "axe_finding list option")
    (incomplete: "axe_finding list option")

text \<open>
  What the page answers to the accessibility tester: whether \<^verbatim>\<open>window.axe\<close> is defined,
  whether loading and evaluating the axe-core script throws, and the outcome of the audit.
\<close>

record axe_page =
  axe_defined :: "string + bool"
  axe_inject :: "string option"
  axe_run :: "string + axe_results"

record accessibility_result = phase_result +
  rawResults :: "axe_results option"

definition injectAxeCore :: "axe_page \<Rightarrow> string + unit" where
  "injectAxeCore pg =
     (case axe_defined pg of
        Inl msg \<Rightarrow> Inl msg
      | Inr axeAlreadyDefined \<Rightarrow>
          if axeAlreadyDefined then Inr ()
          else (case axe_inject pg of Some msg \<Rightarrow> Inl msg | None \<Rightarrow> Inr ()))"

definition formatIssue :: "severity \<Rightarrow> axe_finding \<Rightarrow> issue" where
  "formatIssue sev f =
     (let ns = or_empty (nodes f);
          elementCount = length ns
      in \<lparr>type = ''Accessibility '' @ severity_str sev @ '': '' @ rule_id f,
          description = or_str (rule_help f) (rule_description f),
          severity = sev,
          impact = Some (or_str (rule_impact f) ''minor''),
          location = Some (if elementCount > 0
                           then show_nat elementCount @ '' element(s) affected''
                           else ''Unknown location''),
          suggestion = Some (if truthy (helpUrl f)
                             then ''See '' @ or_str (helpUrl f) [] @ '' for more information''
                             else ''Fix according to WCAG guidelines''),
          elements = Some (map (\<lambda>n. AxeNode (html n) (target n)) ns)\<rparr>)"

definition formatIssues :: "axe_finding list \<Rightarrow> severity \<Rightarrow> issue list" where
  "formatIssues fs sev = map (formatIssue sev) fs"

text \<open>\<^verbatim>\<open>AccessibilityTester.runTests\<close>; \<open>includeWarnings\<close> is \<^verbatim>\<open>this.options.includeWarnings\<close>.\<close>

definition accessibility_runTests :: "bool \<Rightarrow> axe_page \<Rightarrow> accessibility_result" where
  "accessibility_runTests includeWarnings pg =
     (case injectAxeCore pg of
        Inl msg \<Rightarrow> \<lparr>success = False, error = Some msg, issues = None, rawResults = None\<rparr>
      | Inr _ \<Rightarrow>
          (case axe_run pg of
             Inl msg \<Rightarrow> \<lparr>success = False, error = Some msg, issues = None, rawResults = None\<rparr>
           | Inr results \<Rightarrow>
               if truthy (axe_error results)
               then \<lparr>success = False, error = axe_error results, issues = None, rawResults = None\<rparr>
               else
                 (let viols = or_empty (violations results);
                      warnings = (if includeWarnings then or_empty (incomplete results) else [])
                  in \<lparr>success = (length viols = 0), error = None,
                      issues = Some (formatIssues viols Error @ formatIssues warnings Warning),
                      rawResults = Some results\<rparr>)))"

subsection \<open>\<^verbatim>\<open>FunctionalTester\<close>\<close>

text \<open>
  The rendered document as the in-page function of \<^verbatim>\<open>_isElementClickable\<close> sees it:
  the element tree, the selector engine, the layout box and computed style of each element,
  and the hit test. Elements are named by their identifiers in the tree.
\<close>

datatype dom = Element (node_id: nat) (children: "dom list")

record rect =
  left :: real
  top :: real
  width :: real
  height :: real

record computed_style =
  visibility :: string
  display :: string
  opacity :: string

record document =
  root :: dom
  querySelector :: "string \<Rightarrow> nat option"
  getBoundingClientRect :: "nat \<Rightarrow> rect"
  getComputedStyle :: "nat \<Rightarrow> computed_style"
  elementFromPoint :: "real \<Rightarrow> real \<Rightarrow> nat option"

fun find_node :: "nat \<Rightarrow> dom \<Rightarrow> dom option"
  and find_nodes :: "nat \<Rightarrow> dom list \<Rightarrow> dom option" where
  "find_node i (Element j cs) = (if i = j then Some (Element j cs) else find_nodes i cs)"
| "find_nodes i [] = None"
| "find_nodes i (d # ds) = (case find_node i d of Some n \<Rightarrow> Some n | None \<Rightarrow> find_nodes i ds)"

fun node_ids :: "dom \<Rightarrow> nat list" where
  "node_ids (Element i cs) = i # concat (map node_ids cs)"

text \<open>The proper descendants of an element of the document.\<close>

definition descendants :: "document \<Rightarrow> nat \<Rightarrow> nat list" where
  "descendants doc e =
     (case find_node e (root doc) of
        None \<Rightarrow> []
      | Some n \<Rightarrow> concat (map node_ids (children n)))"

text \<open>
  \<^verbatim>\<open>element.contains(other)\<close>: \<open>other\<close> is the element or one of its descendants;
  \<^verbatim>\<open>contains(null)\<close> is false.
\<close>

definition contains :: "document \<Rightarrow> nat \<Rightarrow> nat option \<Rightarrow> bool" where
  "contains doc e other =
     (case other of None \<Rightarrow> False | Some o' \<Rightarrow> o' = e \<or> o' \<in> set (descendants doc e))"

text \<open>
  \<^verbatim>\<open>FunctionalTester._isElementClickable\<close>; \<open>pg\<close> is \<open>Inl msg\<close> when
  \<^verbatim>\<open>page.evaluate\<close> throws, which the \<^verbatim>\<open>catch\<close> turns into \<^verbatim>\<open>false\<close>.
\<close>

definition isElementClickable :: "string + document \<Rightarrow> string \<Rightarrow> bool" where
  "isElementClickable pg selector =
     (case pg of
        Inl msg \<Rightarrow> False
      | Inr doc \<Rightarrow>
          (case querySelector doc selector of
             None \<Rightarrow> False
           | Some element \<Rightarrow>
               (let r = getBoundingClientRect doc element in
                if width r = 0 \<or> height r = 0 then False
                else
                  (let style = getComputedStyle doc element in
                   if visibility style = ''hidden'' \<or> display style = ''none'' \<or> opacity style = ''0''
                   then False
                   else
                     (let centerX = left r + width r / 2;
                          centerY = top r + height r / 2;
                          elementAtPoint = elementFromPoint doc centerX centerY
                      in Some element = elementAtPoint \<or> contains doc element elementAtPoint)))))"

text \<open>
  The six sub-tests catch their own exceptions and return \<^verbatim>\<open>{success, issues?, ...}\<close>;
  their results are taken as the page gave them, in the order of the object literal.
\<close>

record functional_details =
  navigation :: phase_result
  buttons :: phase_result
  forms :: phase_result
  links :: phase_result
  images :: phase_result
  inputs :: phase_result

record functional_result = phase_result +
  details :: "functional_details option"

text \<open>
  \<^verbatim>\<open>FunctionalTester.runTests\<close>; \<open>answers\<close> is \<open>Inl msg\<close> when an exception reaches the
  \<^verbatim>\<open>catch\<close> of \<^verbatim>\<open>runTests\<close> itself.
\<close>

definition functional_runTests :: "string + functional_details \<Rightarrow> functional_result" where
  "functional_runTests answers =
     (case answers of
        Inl msg \<Rightarrow> \<lparr>success = False, error = Some msg, issues = None, details = None\<rparr>
      | Inr results \<Rightarrow>
          (let found = concat (map issues_or_empty
                         [navigation results, buttons results, forms results, links results,
                          images results, inputs results])
           in \<lparr>success = (length found = 0), error = None, issues = Some found,
               details = Some results\<rparr>))"

subsection \<open>\<^verbatim>\<open>ResponsiveTester\<close>\<close>

text \<open>
  What the page answers at one viewport size: whether resizing (or the settle delay) and the
  screenshot throw, and the results of the four in-page checks, each of which catches its
  own exceptions.
\<close>

record viewport_probe =
  resize_error :: "string option"
  screenshot_error :: "string option"
  horizontalOverflow :: bool
  overflowing :: "string list"
  tinyText :: "string list"
  overlapping :: "string list"

datatype viewport_result =
  ViewportResult (vr_viewport: viewport) (screenshotPath: "string option")
    (hasHorizontalOverflow: bool) (overflowingElementsCount: nat)
    (tinyTextElementsCount: nat) (overlappingElementsCount: nat)

record responsive_options =
  viewports :: "viewport list"
  screenshotDir :: string
  takeScreenshots :: bool

record responsive_result = phase_result +
  results :: "viewport_result list option"

definition viewport_label :: "viewport \<Rightarrow> string" where
  "viewport_label v =
     show_nat (vp_width v) @ ''x'' @ show_nat (vp_height v) @ '' ('' @ vp_name v @ '')''"

definition viewport_issues :: "viewport \<Rightarrow> viewport_probe \<Rightarrow> issue list" where
  "viewport_issues v p =
     (if horizontalOverflow p
      then [\<lparr>type = ''Horizontal Overflow'',
             description = ''Page has horizontal overflow at '' @ viewport_label v,
             severity = Error, impact = None, location = None,
             suggestion = Some ''Use responsive design techniques like max-width, flexbox, or CSS Grid'',
             elements = None\<rparr>]
      else [])
     @ (if length (overflowing p) > 0
        then [\<lparr>type = ''Overflowing Elements'',
               description = ''Found '' @ show_nat (length (overflowing p))
                 @ '' elements overflowing the viewport at '' @ viewport_label v,
               severity = Warning, impact = None, location = None,
               suggestion = Some ''Adjust element dimensions with CSS media queries or use responsive units'',
               elements = Some (map PageElement (overflowing p))\<rparr>]
        else [])
     @ (if length (tinyText p) > 0
        then [\<lparr>type = ''Tiny Text'',
               description = ''Found '' @ show_nat (length (tinyText p))
                 @ '' elements with very small text at '' @ viewport_label v,
               severity = Warning, impact = None, location = None,
               suggestion = Some ''Increase font size for better readability on smaller screens'',
               elements = Some (map PageElement (tinyText p))\<rparr>]
        else [])
     @ (if length (overlapping p) > 0
        then [\<lparr>type = ''Overlapping Elements'',
               description = ''Found '' @ show_nat (length (overlapping p))
                 @ '' potentially overlapping elements at '' @ viewport_label v,
               severity = Warning, impact = None, location = None,
               suggestion = Some ''Adjust layout to prevent elements from overlapping'',
               elements = Some (map PageElement (overlapping p))\<rparr>]
        else [])"

text \<open>
  The loop over the viewports, with the two arrays it fills; an exception leaves the loop
  with its message.
\<close>

fun test_viewports ::
    "responsive_options \<Rightarrow> (string \<Rightarrow> string \<Rightarrow> string) \<Rightarrow> (viewport \<Rightarrow> viewport_probe)
      \<Rightarrow> string \<Rightarrow> string \<Rightarrow> viewport list \<Rightarrow> viewport_result list \<Rightarrow> issue list
      \<Rightarrow> string + (viewport_result list \<times> issue list)" where
  "test_viewports opts join probe hostname stamp [] done found = Inr (done, found)"
| "test_viewports opts join probe hostname stamp (v # vs) done found =
     (let p = probe v in
      case resize_error p of
        Some msg \<Rightarrow> Inl msg
      | None \<Rightarrow>
          (case (if takeScreenshots opts then screenshot_error p else None) of
             Some msg \<Rightarrow> Inl msg
           | None \<Rightarrow>
               (let path = (if takeScreenshots opts
                            then Some (join (screenshotDir opts)
                                   (hostname @ ''-'' @ vp_name v @ ''-'' @ stamp @ ''.png''))
                            else None)
                in test_viewports opts join probe hostname stamp vs
                     (done @ [ViewportResult v path (horizontalOverflow p) (length (overflowing p))
                                (length (tinyText p)) (length (overlapping p))])
                     (found @ viewport_issues v p))))"

text \<open>
  \<^verbatim>\<open>ResponsiveTester.runTests\<close>. \<open>parse\<close> is \<^verbatim>\<open>new URL(url).hostname\<close> (\<open>Inl msg\<close>
  when the constructor throws), \<open>now\<close> the ISO timestamp of the clock, \<open>join\<close> is
  \<^verbatim>\<open>path.join\<close>, and \<open>probe\<close> gives the answers of the page at each viewport.
\<close>

definition responsive_runTests ::
    "responsive_options \<Rightarrow> (string \<Rightarrow> string + string) \<Rightarrow> string \<Rightarrow> (string \<Rightarrow> string \<Rightarrow> string)
      \<Rightarrow> (viewport \<Rightarrow> viewport_probe) \<Rightarrow> string \<Rightarrow> responsive_result" where
  "responsive_runTests opts parse now join probe url =
     (case (case parse url of
              Inl msg \<Rightarrow> Inl msg
            | Inr hostname \<Rightarrow>
                test_viewports opts join probe hostname
                  (map (\<lambda>c. if c = CHR '':'' then CHR ''-'' else c) now) (viewports opts) [] []) of
        Inl msg \<Rightarrow>
          \<lparr>success = False, error = Some msg,
           issues = Some [error_issue ''Responsive Test Error'' msg], results = None\<rparr>
      | Inr (done, found) \<Rightarrow>
          \<lparr>success = (length found = 0), error = None, issues = Some found, results = Some done\<rparr>)"

subsection \<open>\<^verbatim>\<open>BrowserManager\<close>\<close>

datatype phase = Accessibility | Functional | Performance | Responsive

text \<open>
  The state of the browser manager of one run, and the record of what was done with it:
  the browser launches, the navigations, the calls of the testers and the closing of the
  browser, in the order they happen.
\<close>

datatype event = BrowserLaunch | PageGoto string | PhaseRun phase | ReportGenerate | BrowserClose

record session =
  manager :: bool
  browser :: bool
  page :: bool
  trace :: "event list"

definition no_session :: session where
  "no_session = \<lparr>manager = False, browser = False, page = False, trace = []\<rparr>"

datatype launch_outcome = LaunchFails string | NewPageFails string | LaunchOk

datatype nav_outcome = GotoThrows string | NoResponse | Response nat

text \<open>
  \<^verbatim>\<open>initialize\<close> rethrows what \<^verbatim>\<open>puppeteer.launch\<close> or \<^verbatim>\<open>newPage\<close> throws;
  after a failed \<^verbatim>\<open>newPage\<close> the browser is already held.
\<close>

definition initialize :: "launch_outcome \<Rightarrow> session \<Rightarrow> (string + unit) \<times> session" where
  "initialize l s =
     (case l of
        LaunchFails msg \<Rightarrow> (Inl msg, s\<lparr>trace := trace s @ [BrowserLaunch]\<rparr>)
      | NewPageFails msg \<Rightarrow> (Inl msg, s\<lparr>browser := True, trace := trace s @ [BrowserLaunch]\<rparr>)
      | LaunchOk \<Rightarrow> (Inr (), s\<lparr>browser := True, page := True, trace := trace s @ [BrowserLaunch]\<rparr>))"

definition navigateTo :: "nav_outcome \<Rightarrow> string \<Rightarrow> session \<Rightarrow> bool \<times> session" where
  "navigateTo n url s =
     ((case n of
         GotoThrows msg \<Rightarrow> False
       | NoResponse \<Rightarrow> False
       | Response status \<Rightarrow> if status \<ge> 400 then False else True),
      s\<lparr>trace := trace s @ [PageGoto url]\<rparr>)"

definition close :: "session \<Rightarrow> session" where
  "close s =
     (if browser s
      then s\<lparr>browser := False, page := False, trace := trace s @ [BrowserClose]\<rparr>
      else s)"

subsection \<open>\<^verbatim>\<open>TestRunner\<close>\<close>

datatype report_paths = ReportPaths (json_path: "string option") (html_path: "string option")

text \<open>
  Everything outside the program that one run consults: the URL parser, the clock, the
  file system (\<^verbatim>\<open>path.join\<close>, the screenshot directory created by the constructor of the
  responsive tester, the report files written by the report generator) and the browser.
\<close>

record world =
  parse_url :: "string \<Rightarrow> string + string"
  launch :: launch_outcome
  goto :: nav_outcome
  ensureDir_error :: "string option"
  axe :: axe_page
  functional_answers :: "string + functional_details"
  performance_answers :: "string + perf_data"
  viewport_answers :: "viewport \<Rightarrow> viewport_probe"
  path_join :: "string \<Rightarrow> string \<Rightarrow> string"
  responsive_clock :: string
  results_clock :: string
  report :: "string + report_paths"

record summary =
  totalPages :: nat
  totalTests :: nat
  passedTests :: nat
  failedTests :: nat

text \<open>The four results, named as in \<^verbatim>\<open>testResults.details\<close>.\<close>

record run_details =
  accessibility :: accessibility_result
  functional :: functional_result
  performance :: performance_result
  responsive :: responsive_result

text \<open>
  \<^verbatim>\<open>testResults\<close>; its fields \<^verbatim>\<open>url\<close>, \<^verbatim>\<open>timestamp\<close>, \<^verbatim>\<open>summary\<close>,
  \<^verbatim>\<open>performance\<close>, \<^verbatim>\<open>issues\<close> and \<^verbatim>\<open>details\<close> carry the prefix \<open>tr_\<close> here.
\<close>

record test_results =
  tr_url :: string
  tr_timestamp :: string
  tr_summary :: summary
  tr_performance :: "(string \<times> real) list option"
  tr_issues :: "issue list"
  tr_details :: run_details

text \<open>
  What \<^verbatim>\<open>runTests\<close> returns: \<^verbatim>\<open>{success: false, error}\<close> from the \<^verbatim>\<open>catch\<close>, or
  \<^verbatim>\<open>{success, results, reportPaths}\<close>.
\<close>

datatype run_outcome = RunError string | RunOk bool test_results report_paths

fun outcome_success :: "run_outcome \<Rightarrow> bool" where
  "outcome_success (RunError msg) = False"
| "outcome_success (RunOk ok res paths) = ok"

text \<open>The testers as the runner constructs them.\<close>

definition runner_responsive_options :: responsive_options where
  "runner_responsive_options =
     \<lparr>viewports = config_viewports, screenshotDir = ''./screenshots'', takeScreenshots = True\<rparr>"

text \<open>The four awaited calls of the testers, in the order of the source.\<close>

definition run_phases :: "world \<Rightarrow> string \<Rightarrow> session \<Rightarrow> run_details \<times> session" where
  "run_phases w url s =
     (let s1 = s\<lparr>trace := trace s @ [PhaseRun Accessibility]\<rparr>;
          accessibilityResults = accessibility_runTests True (axe w);
          s2 = s1\<lparr>trace := trace s1 @ [PhaseRun Functional]\<rparr>;
          functionalResults = functional_runTests (functional_answers w);
          s3 = s2\<lparr>trace := trace s2 @ [PhaseRun Performance]\<rparr>;
          performanceResults =
            performance_runTests config_performance_thresholds (browser s3) (performance_answers w);
          s4 = s3\<lparr>trace := trace s3 @ [PhaseRun Responsive]\<rparr>;
          responsiveResults =
            responsive_runTests runner_responsive_options (parse_url w) (responsive_clock w)
              (path_join w) (viewport_answers w) url
      in (\<lparr>accessibility = accessibilityResults, functional = functionalResults,
           performance = performanceResults, responsive = responsiveResults\<rparr>, s4))"

text \<open>\<^verbatim>\<open>allIssues\<close>\<close>

definition collect_issues :: "run_details \<Rightarrow> issue list" where
  "collect_issues d =
     issues_or_empty (accessibility d) @ issues_or_empty (functional d)
       @ issues_or_empty (performance d) @ issues_or_empty (responsive d)"

definition summarize :: "run_details \<Rightarrow> summary" where
  "summarize d =
     \<lparr>totalPages = 1, totalTests = 4,
      passedTests = length (filter id
        [success (accessibility d), success (functional d),
         success (performance d), success (responsive d)]),
      failedTests = length (filter id
        [\<not> success (accessibility d), \<not> success (functional d),
         \<not> success (performance d), \<not> success (responsive d)])\<rparr>"

text \<open>
  The rest of the \<^verbatim>\<open>try\<close> block after the four testers: the aggregation, the report
  (\<open>Inl msg\<close> when the report generator throws) and the returned object.
\<close>

definition conclude ::
    "world \<Rightarrow> string \<Rightarrow> run_details \<Rightarrow> string + (bool \<times> test_results \<times> report_paths)" where
  "conclude w url d =
     (let allIssues = collect_issues d;
          testResults =
            \<lparr>tr_url = url, tr_timestamp = results_clock w, tr_summary = summarize d,
             tr_performance = scores (performance d), tr_issues = allIssues, tr_details = d\<rparr>
      in case report w of
           Inl msg \<Rightarrow> Inl msg
         | Inr reportPaths \<Rightarrow> Inr (length allIssues = 0, testResults, reportPaths))"

text \<open>The \<^verbatim>\<open>try\<close> block of \<^verbatim>\<open>runTests\<close>: \<open>Inl msg\<close> is an exception that reaches the \<^verbatim>\<open>catch\<close>.\<close>

definition try_block ::
    "world \<Rightarrow> string \<Rightarrow> (string + (bool \<times> test_results \<times> report_paths)) \<times> session" where
  "try_block w url =
     (case parse_url w url of
        Inl e \<Rightarrow> (Inl (''Invalid URL: '' @ url), no_session)
      | Inr h \<Rightarrow>
          (let s0 = no_session\<lparr>manager := True\<rparr>;
               (started, s1) = initialize (launch w) s0
           in case started of
                Inl msg \<Rightarrow> (Inl msg, s1)
              | Inr u \<Rightarrow>
                  (let (navigationSuccess, s2) = navigateTo (goto w) url s1
                   in if \<not> navigationSuccess
                      then (Inl (''Failed to navigate to '' @ url), s2)
                      else
                        (case ensureDir_error w of
                           Some msg \<Rightarrow> (Inl msg, s2)
                         | None \<Rightarrow>
                             (let (d, s3) = run_phases w url s2;
                                  s4 = s3\<lparr>trace := trace s3 @ [ReportGenerate]\<rparr>
                              in (conclude w url d, s4))))))"

text \<open>
  \<^verbatim>\<open>TestRunner.runTests\<close>: the \<^verbatim>\<open>try\<close> block, the \<^verbatim>\<open>catch\<close> that turns an exception
  into \<^verbatim>\<open>{success: false, error}\<close>, and the \<^verbatim>\<open>finally\<close> that closes the browser when a
  browser manager was created. The session is returned with the outcome.
\<close>

definition runTests :: "world \<Rightarrow> string \<Rightarrow> run_outcome \<times> session" where
  "runTests w url =
     (let (r, s) = try_block w url;
          s' = (if manager s then close s else s)
      in ((case r of
             Inl msg \<Rightarrow> RunError msg
           | Inr (ok, res, paths) \<Rightarrow> RunOk ok res paths), s'))"

text \<open>The testers called during a run, in order of their calls.\<close>

fun phases_of :: "event list \<Rightarrow> phase list" where
  "phases_of [] = []"
| "phases_of (PhaseRun p # es) = p # phases_of es"
| "phases_of (e # es) = phases_of es"

subsection \<open>Vocabulary of the properties\<close>

text \<open>
  A run reaches the testers when the URL parses, the browser starts, the navigation answers
  with a status below 400 and the testers can be constructed.
\<close>

definition run_starts :: "world \<Rightarrow> string \<Rightarrow> bool" where
  "run_starts w url =
     ((case parse_url w url of Inl e \<Rightarrow> False | Inr h \<Rightarrow> True)
      \<and> launch w = LaunchOk
      \<and> (case goto w of Response status \<Rightarrow> status < 400 | _ \<Rightarrow> False)
      \<and> ensureDir_error w = None)"

text \<open>The session after a successful \<^verbatim>\<open>initialize\<close> and \<^verbatim>\<open>navigateTo\<close>.\<close>

definition navigated_session :: "string \<Rightarrow> session" where
  "navigated_session url =
     \<lparr>manager = True, browser = True, page = True, trace = [BrowserLaunch, PageGoto url]\<rparr>"

text \<open>The results of the four testers in a run that reaches them.\<close>

definition phase_results :: "world \<Rightarrow> string \<Rightarrow> run_details" where
  "phase_results w url = fst (run_phases w url (navigated_session url))"

text \<open>The session at the end of a run that reached the testers.\<close>

definition finished_session :: "string \<Rightarrow> session" where
  "finished_session url =
     \<lparr>manager = True, browser = False, page = False,
      trace = [BrowserLaunch, PageGoto url, PhaseRun Accessibility, PhaseRun Functional,
               PhaseRun Performance, PhaseRun Responsive, ReportGenerate, BrowserClose]\<rparr>"

text \<open>The \<^verbatim>\<open>results\<close> field of the returned object, when there is one.\<close>

fun outcome_results :: "run_outcome \<Rightarrow> test_results option" where
  "outcome_results (RunError msg) = None"
| "outcome_results (RunOk ok res paths) = Some res"

text \<open>The element hit at the centre of an element's box.\<close>

definition center_hit :: "document \<Rightarrow> nat \<Rightarrow> nat option" where
  "center_hit doc e =
     (let r = getBoundingClientRect doc e
      in elementFromPoint doc (left r + width r / 2) (top r + height r / 2))"

text \<open>
  An element is covered when the element hit at its centre is neither the element nor one of
  its descendants (or when nothing is hit there).
\<close>

definition covered :: "document \<Rightarrow> nat \<Rightarrow> bool" where
  "covered doc e =
     (case center_hit doc e of
        None \<Rightarrow> True
      | Some x \<Rightarrow> x \<noteq> e \<and> x \<notin> set (descendants doc e))"

text \<open>Hidden by styling, as \<^verbatim>\<open>_isElementClickable\<close> tests it.\<close>

definition hidden :: "computed_style \<Rightarrow> bool" where
  "hidden style = (visibility style = ''hidden'' \<or> display style = ''none'' \<or> opacity style = ''0'')"

text \<open>A result with \<^verbatim>\<open>success: false\<close> and an \<^verbatim>\<open>error\<close> field, but no \<^verbatim>\<open>issues\<close> field.\<close>

definition silent_failure :: "'a phase_result_scheme \<Rightarrow> bool" where
  "silent_failure r = (\<not> success r \<and> issues r = None \<and> error r \<noteq> None)"

subsection \<open>Example pages and runs\<close>

definition example_url :: string where
  "example_url = ''https://example.com''"

definition example_parse :: "string \<Rightarrow> string + string" where
  "example_parse u = (if u = example_url then Inr ''example.com'' else Inl ''Invalid URL'')"

text \<open>
  Scenario B of the specification: navigation starts at 100, first contentful paint at 1600
  and the load event ends at 4100, so the load time is 4000 ms and the first contentful paint
  time 1500 ms; 50 resources of 20971.52 bytes each make 1 MiB.
\<close>

definition scenario_B :: perf_data where
  "scenario_B =
     \<lparr>cdp_metrics = [(''NavigationStart'', 100), (''DomContentLoaded'', 1300), (''FirstPaint'', 1500),
                     (''FirstContentfulPaint'', 1600), (''LoadEventEnd'', 4100)],
      resourceTimings = replicate 50 (Resource ''https://example.com/asset'' 10 (Some 20971.52) ''img'')\<rparr>"

text \<open>A fast page: first contentful paint after 800 ms, loaded after 1500 ms, two small resources.\<close>

definition fast_page :: perf_data where
  "fast_page =
     \<lparr>cdp_metrics = [(''NavigationStart'', 0), (''DomContentLoaded'', 600), (''FirstPaint'', 700),
                     (''FirstContentfulPaint'', 800), (''LoadEventEnd'', 1500)],
      resourceTimings = [Resource ''https://example.com/a.css'' 5 (Some 2048) ''link'',
                         Resource ''https://example.com/b.js'' 7 (Some 4096) ''script'']\<rparr>"

definition passed :: phase_result where
  "passed = \<lparr>success = True, error = None, issues = Some []\<rparr>"

definition quiet_details :: functional_details where
  "quiet_details =
     \<lparr>navigation = passed, buttons = passed, forms = passed, links = passed,
      images = passed, inputs = passed\<rparr>"

definition quiet_probe :: viewport_probe where
  "quiet_probe =
     \<lparr>resize_error = None, screenshot_error = None, horizontalOverflow = False,
      overflowing = [], tinyText = [], overlapping = []\<rparr>"

definition image_alt :: axe_finding where
  "image_alt =
     Finding ''image-alt'' (Some ''Images must have alternate text'')
       ''Ensures img elements have alternate text'' (Some ''critical'')
       (Some ''https://dequeuniversity.com/rules/axe/4.7/image-alt'')
       (Some [Node ''<img src=logo.png>'' [''img'']])"

definition color_contrast :: axe_finding where
  "color_contrast =
     Finding ''color-contrast'' (Some ''Elements must have sufficient color contrast'')
       ''Ensures the contrast between foreground and background colors is sufficient''
       None None (Some [Node ''<p>text</p>'' [''p'']])"

text \<open>An audit with one violation and nothing incomplete.\<close>

definition axe_one_violation :: axe_page where
  "axe_one_violation =
     \<lparr>axe_defined = Inr False, axe_inject = None,
      axe_run = Inr (AxeResults None (Some [image_alt]) (Some []))\<rparr>"

text \<open>Scenario E of the specification: no violation and two incomplete findings.\<close>

definition scenario_E :: axe_page where
  "scenario_E =
     \<lparr>axe_defined = Inr False, axe_inject = None,
      axe_run = Inr (AxeResults None (Some []) (Some [color_contrast, image_alt]))\<rparr>"

text \<open>The engine rejects: the in-page promise resolves to \<^verbatim>\<open>{error: 'axe failed'}\<close>.\<close>

definition axe_engine_failure :: axe_page where
  "axe_engine_failure =
     \<lparr>axe_defined = Inr False, axe_inject = None,
      axe_run = Inr (AxeResults (Some ''axe failed'') None None)\<rparr>"




definition example_world :: world where
  "example_world =
     \<lparr>parse_url = example_parse, launch = LaunchOk, goto = Response 200, ensureDir_error = None,
      axe = axe_one_violation, functional_answers = Inr quiet_details,
      performance_answers = Inr fast_page, viewport_answers = (\<lambda>v. quiet_probe),
      path_join = (\<lambda>d f. d @ ''/'' @ f),
      responsive_clock = ''2024-01-01T00:00:01.000Z'', results_clock = ''2024-01-01T00:00:09.000Z'',
      report = Inr (ReportPaths (Some ''reports/example.com.json'') (Some ''reports/example.com.html''))\<rparr>"

definition world_404 :: world where
  "world_404 = example_world\<lparr>goto := Response 404\<rparr>"

definition world_axe_fails :: world where
  "world_axe_fails = example_world\<lparr>axe := axe_engine_failure\<rparr>"

text \<open>A document with a button covered by an overlay, and a link that is not covered.\<close>

definition example_document :: document where
  "example_document =
     \<lparr>root = Element 0 [Element 1 [Element 2 []], Element 3 [], Element 4 []],
      querySelector = (\<lambda>sel. if sel = ''button'' then Some 1 else if sel = ''a'' then Some 3
                              else if sel = ''.overlay'' then Some 4 else None),
      getBoundingClientRect = (\<lambda>e. if e = 3 then \<lparr>left = 0, top = 100, width = 80, height = 20\<rparr>
                                    else \<lparr>left = 0, top = 0, width = 100, height = 40\<rparr>),
      getComputedStyle = (\<lambda>e. \<lparr>visibility = ''visible'', display = ''block'', opacity = ''1''\<rparr>),
      elementFromPoint = (\<lambda>x y. if y < 40 then Some 4 else if y < 120 then Some 3 else Some 0)\<rparr>"

section \<open>Properties\<close>

subsection \<open>Auxiliary facts about a run\<close>

lemma phases_of_append: "phases_of (xs @ ys) = phases_of xs @ phases_of ys"
  by (induction xs rule: phases_of.induct) simp_all

lemma run_phases_eq:
  "run_phases w url s =
     (\<lparr>accessibility = accessibility_runTests True (axe w),
       functional = functional_runTests (functional_answers w),
       performance = performance_runTests config_performance_thresholds (browser s)
                       (performance_answers w),
       responsive = responsive_runTests runner_responsive_options (parse_url w)
                      (responsive_clock w) (path_join w) (viewport_answers w) url\<rparr>,
      s\<lparr>trace := trace s @ [PhaseRun Accessibility, PhaseRun Functional, PhaseRun Performance,
                             PhaseRun Responsive]\<rparr>)"
  by (simp add: run_phases_def Let_def)

lemma phase_results_eq:
  "phase_results w url =
     \<lparr>accessibility = accessibility_runTests True (axe w),
      functional = functional_runTests (functional_answers w),
      performance = performance_runTests config_performance_thresholds True (performance_answers w),
      responsive = responsive_runTests runner_responsive_options (parse_url w)
                     (responsive_clock w) (path_join w) (viewport_answers w) url\<rparr>"
  by (simp add: phase_results_def run_phases_eq navigated_session_def)

lemma runTests_started:
  assumes "run_starts w url"
  shows "runTests w url =
     ((case conclude w url (phase_results w url) of
         Inl msg \<Rightarrow> RunError msg
       | Inr (ok, res, paths) \<Rightarrow> RunOk ok res paths),
      finished_session url)"
  using assms
  by (auto simp add: run_starts_def runTests_def try_block_def initialize_def navigateTo_def
      no_session_def close_def run_phases_eq phase_results_eq finished_session_def Let_def
      split: sum.splits nav_outcome.splits prod.splits)

lemma runTests_not_started:
  assumes "\<not> run_starts w url"
  shows "\<exists>msg. fst (runTests w url) = RunError msg"
    and "phases_of (trace (snd (runTests w url))) = []"
    and "\<not> browser (snd (runTests w url))"
  using assms
  by (auto simp add: run_starts_def runTests_def try_block_def initialize_def navigateTo_def
      no_session_def close_def Let_def
      split: sum.splits nav_outcome.splits prod.splits launch_outcome.splits option.splits)

lemma runTests_RunOk:
  assumes "fst (runTests w url) = RunOk ok res paths"
  shows "run_starts w url" and "report w = Inr paths"
    and "ok = (collect_issues (phase_results w url) = [])"
    and "res = \<lparr>tr_url = url, tr_timestamp = results_clock w,
                tr_summary = summarize (phase_results w url),
                tr_performance = scores (performance (phase_results w url)),
                tr_issues = collect_issues (phase_results w url),
                tr_details = phase_results w url\<rparr>"
proof -
  show st: "run_starts w url"
    using assms runTests_not_started(1) [of w url] by auto
  from assms runTests_started [OF st]
  have c: "(case conclude w url (phase_results w url) of
         Inl msg \<Rightarrow> RunError msg
       | Inr (ok, res, paths) \<Rightarrow> RunOk ok res paths) = RunOk ok res paths"
    by simp
  then show "report w = Inr paths"
    by (auto simp add: conclude_def Let_def split: sum.splits)
  from c show "ok = (collect_issues (phase_results w url) = [])"
    by (auto simp add: conclude_def Let_def split: sum.splits)
  from c show "res = \<lparr>tr_url = url, tr_timestamp = results_clock w,
                tr_summary = summarize (phase_results w url),
                tr_performance = scores (performance (phase_results w url)),
                tr_issues = collect_issues (phase_results w url),
                tr_details = phase_results w url\<rparr>"
    by (auto simp add: conclude_def Let_def split: sum.splits)
qed

lemma threshold_accessibility:
  "threshold_issue config_performance_thresholds (''accessibility'', 0.85) \<noteq> []"
  by (simp add: threshold_issue_def config_performance_thresholds_def Let_def)

lemma performance_issues_nonempty:
  "performance_issues config_performance_thresholds l f t n (performance_scores f' l') \<noteq> []"
  using threshold_accessibility
  by (simp add: performance_issues_def performance_scores_def)

lemma performance_runTests_issues:
  "issues_or_empty (performance_runTests config_performance_thresholds b answers) \<noteq> []"
  using performance_issues_nonempty
  by (simp add: performance_runTests_def issues_or_empty_def Let_def split: sum.splits)

lemma collect_issues_nonempty: "collect_issues (phase_results w url) \<noteq> []"
  using performance_runTests_issues
  by (simp add: collect_issues_def phase_results_eq)

lemma never_success: "\<not> outcome_success (fst (runTests w url))"
proof (cases "run_starts w url")
  case True
  then show ?thesis
    using collect_issues_nonempty [of w url]
    by (auto simp add: runTests_started conclude_def Let_def split: sum.splits)
next
  case False
  then show ?thesis
    using runTests_not_started(1) [of w url] by auto
qed


lemma performance_never_succeeds:
  "success (performance_runTests config_performance_thresholds b answers) = False"
  using performance_runTests_issues [of b answers]
  by (auto simp add: performance_runTests_def issues_or_empty_def Let_def split: sum.splits)

subsection \<open>Auxiliary facts about the examples\<close>

lemma example_starts: "run_starts example_world example_url"
  by (simp add: run_starts_def example_world_def example_parse_def)

lemma example_report:
  "report example_world =
     Inr (ReportPaths (Some ''reports/example.com.json'') (Some ''reports/example.com.html''))"
  by (simp add: example_world_def)

lemma example_run_ok:
  "\<exists>ok res paths. fst (runTests example_world example_url) = RunOk ok res paths"
  by (simp add: runTests_started [OF example_starts] conclude_def example_report Let_def)

lemma example_phases:
  "phases_of (trace (snd (runTests example_world example_url)))
     = [Accessibility, Functional, Performance, Responsive]"
  by (simp add: runTests_started [OF example_starts] finished_session_def)

lemma example_accessibility:
  "issues_or_empty (accessibility_runTests True axe_one_violation) = [formatIssue Error image_alt]"
  by (simp add: accessibility_runTests_def axe_one_violation_def injectAxeCore_def
      issues_or_empty_def formatIssues_def Let_def)

lemma example_functional: "issues_or_empty (functional_runTests (Inr quiet_details)) = []"
  by (simp add: functional_runTests_def quiet_details_def passed_def issues_or_empty_def Let_def)

lemma fast_page_found:
  "issues_or_empty (performance_runTests config_performance_thresholds True (Inr fast_page))
     = performance_issues config_performance_thresholds 1500 800 6144 (Suc (Suc 0))
         (performance_scores 800 1500)"
  by (simp add: performance_runTests_def fast_page_def metrics_object_def issues_or_empty_def Let_def)

lemma fast_page_thresholds:
  "concat (map (threshold_issue config_performance_thresholds) (performance_scores 800 1500))
   = [warning_issue ''Performance Issue''
          ''accessibility score (85%) is below threshold (90%)''
          ''Improve accessibility by following web performance best practices'']"
  by (simp add: performance_scores_def calculateScore_def threshold_issue_def
      config_performance_thresholds_def Let_def show_int_def js_round_def show_nat.simps)

lemma fast_page_issues:
  "issues_or_empty (performance_runTests config_performance_thresholds True (Inr fast_page))
     = [warning_issue ''Performance Issue''
          ''accessibility score (85%) is below threshold (90%)''
          ''Improve accessibility by following web performance best practices'']"
  by (simp add: fast_page_found performance_issues_def fast_page_thresholds)

lemma quiet_responsive:
  "responsive_runTests runner_responsive_options example_parse stamp join (\<lambda>v. quiet_probe)
     example_url
   = \<lparr>success = True, error = None, issues = Some [],
      results = Some (map (\<lambda>v. ViewportResult v
        (Some (join ''./screenshots''
           (''example.com-'' @ vp_name v @ ''-''
              @ map (\<lambda>c. if c = CHR '':'' then CHR ''-'' else c) stamp @ ''.png'')))
        False 0 0 0) config_viewports)\<rparr>"
  by (simp add: responsive_runTests_def runner_responsive_options_def config_viewports_def
      example_parse_def quiet_probe_def viewport_issues_def Let_def)

lemma example_issues:
  "issues_or_empty (accessibility (phase_results example_world example_url))
     = [formatIssue Error image_alt]"
  "issues_or_empty (functional (phase_results example_world example_url)) = []"
  "issues_or_empty (performance (phase_results example_world example_url))
     = [warning_issue ''Performance Issue''
          ''accessibility score (85%) is below threshold (90%)''
          ''Improve accessibility by following web performance best practices'']"
  "issues_or_empty (responsive (phase_results example_world example_url)) = []"
     apply (simp add: phase_results_eq example_world_def example_accessibility)
    apply (simp add: phase_results_eq example_world_def example_functional)
   apply (simp add: phase_results_eq example_world_def fast_page_issues)
  apply (simp add: phase_results_eq example_world_def quiet_responsive issues_or_empty_def)
  done

lemma example_flags:
  "success (accessibility (phase_results example_world example_url)) = False"
  "success (functional (phase_results example_world example_url)) = True"
  "success (performance (phase_results example_world example_url)) = False"
  "success (responsive (phase_results example_world example_url)) = True"
     apply (simp add: phase_results_eq example_world_def accessibility_runTests_def
      axe_one_violation_def injectAxeCore_def Let_def)
    apply (simp add: phase_results_eq example_world_def functional_runTests_def quiet_details_def
      passed_def issues_or_empty_def Let_def)
   apply (simp add: phase_results_eq performance_never_succeeds)
  apply (simp add: phase_results_eq example_world_def quiet_responsive)
  done

lemma image_alt_type: "type (formatIssue Error image_alt) = ''Accessibility error: image-alt''"
  by (simp add: formatIssue_def image_alt_def Let_def)

lemma show_4000: "show_int (js_round 4000) = ''4000''"
  by (simp add: show_int_def js_round_def show_nat.simps)

lemma scenario_B_thresholds:
  "concat (map (threshold_issue config_performance_thresholds) (performance_scores 1500 4000))
   = [warning_issue ''Performance Issue''
          ''performance score (60%) is below threshold (70%)''
          ''Improve performance by following web performance best practices'',
        warning_issue ''Performance Issue''
          ''accessibility score (85%) is below threshold (90%)''
          ''Improve accessibility by following web performance best practices'']"
  by (simp add: performance_scores_def calculateScore_def threshold_issue_def
      config_performance_thresholds_def Let_def show_int_def js_round_def show_nat.simps)

lemma scenario_B_found:
  assumes "t \<le> 3 * 1024 * 1024"
  shows "performance_issues config_performance_thresholds 4000 1500 t 50 (performance_scores 1500 4000)
     = [warning_issue ''Slow Page Load'' ''Page load time is slow: 4000ms''
          ''Optimize page resources and server response time'',
        warning_issue ''Performance Issue''
          ''performance score (60%) is below threshold (70%)''
          ''Improve performance by following web performance best practices'',
        warning_issue ''Performance Issue''
          ''accessibility score (85%) is below threshold (90%)''
          ''Improve accessibility by following web performance best practices'']"
  using assms
  by (simp add: performance_issues_def scenario_B_thresholds show_4000)

lemma total_replicate:
  "foldl (\<lambda>t r. t + or_zero (transferSize r)) a (replicate n x)
     = a + real n * or_zero (transferSize x)"
  by (induction n arbitrary: a) (simp_all add: algebra_simps)

lemma scenario_B_metrics:
  "metrics (performance_runTests config_performance_thresholds True (Inr scenario_B))
     = Some \<lparr>domContentLoaded = 1200, firstPaint = 1400, firstContentfulPaint = 1500,
             loadTime = 4000, resourceCount = 50, totalResourceSize = 1048576\<rparr>"
  by (simp add: performance_runTests_def scenario_B_def metrics_object_def total_replicate Let_def)

lemma scenario_B_issues:
  "issues_or_empty (performance_runTests config_performance_thresholds True (Inr scenario_B))
      = performance_issues config_performance_thresholds 4000 1500 1048576 50
          (performance_scores 1500 4000)"
  by (simp add: performance_runTests_def scenario_B_def metrics_object_def total_replicate
      issues_or_empty_def Let_def)

lemma axe_fails_starts: "run_starts world_axe_fails example_url"
  by (simp add: run_starts_def world_axe_fails_def example_world_def example_parse_def)

lemma axe_fails_result:
  "accessibility_runTests True axe_engine_failure
     = \<lparr>success = False, error = Some ''axe failed'', issues = None, rawResults = None\<rparr>"
  by (simp add: accessibility_runTests_def axe_engine_failure_def injectAxeCore_def)








subsection \<open>The claims\<close>

text \<open>
  C1 (as the code has it). A run that reaches the testers calls them in the order
  Accessibility, Functional, Performance, Responsive; when it returns results, these hold
  the four testers' results, and the aggregated issue list is the concatenation of their issue
  lists in that same order, a missing list counting as empty.
\<close>

theorem phases_run_in_source_order:
  "(run_starts w url \<longrightarrow>
      phases_of (trace (snd (runTests w url)))
        = [Accessibility, Functional, Performance, Responsive])
   \<and> (fst (runTests w url) = RunOk ok res paths \<longrightarrow>
        phases_of (trace (snd (runTests w url)))
          = [Accessibility, Functional, Performance, Responsive]
        \<and> tr_details res = phase_results w url
        \<and> tr_issues res
            = issues_or_empty (accessibility (tr_details res))
              @ issues_or_empty (functional (tr_details res))
              @ issues_or_empty (performance (tr_details res))
              @ issues_or_empty (responsive (tr_details res)))"
proof -
  have order: "phases_of (trace (snd (runTests w url)))
        = [Accessibility, Functional, Performance, Responsive]" if "run_starts w url"
    using that by (simp add: runTests_started finished_session_def)
  have ok: "phases_of (trace (snd (runTests w url)))
          = [Accessibility, Functional, Performance, Responsive]
        \<and> tr_details res = phase_results w url
        \<and> tr_issues res
            = issues_or_empty (accessibility (tr_details res))
              @ issues_or_empty (functional (tr_details res))
              @ issues_or_empty (performance (tr_details res))
              @ issues_or_empty (responsive (tr_details res))"
    if r: "fst (runTests w url) = RunOk ok res paths"
    using order [OF runTests_RunOk(1) [OF r]] runTests_RunOk(4) [OF r]
    by (simp add: collect_issues_def)
  from order ok show ?thesis by blast
qed

theorem phases_run_in_source_order_witness:
  "run_starts example_world example_url
   \<and> phases_of (trace (snd (runTests example_world example_url)))
       = [Accessibility, Functional, Performance, Responsive]
   \<and> (\<exists>ok res paths. fst (runTests example_world example_url) = RunOk ok res paths
        \<and> tr_issues res
            = issues_or_empty (accessibility (tr_details res))
              @ issues_or_empty (functional (tr_details res))
              @ issues_or_empty (performance (tr_details res))
              @ issues_or_empty (responsive (tr_details res))
        \<and> map type (tr_issues res) = [''Accessibility error: image-alt'', ''Performance Issue''])"
proof -
  obtain ok res paths where r: "fst (runTests example_world example_url) = RunOk ok res paths"
    using example_run_ok by blast
  from phases_run_in_source_order [of example_world example_url ok res paths] r example_starts
  have a: "phases_of (trace (snd (runTests example_world example_url)))
       = [Accessibility, Functional, Performance, Responsive]"
    and d: "tr_details res = phase_results example_world example_url"
    and b: "tr_issues res
            = issues_or_empty (accessibility (tr_details res))
              @ issues_or_empty (functional (tr_details res))
              @ issues_or_empty (performance (tr_details res))
              @ issues_or_empty (responsive (tr_details res))"
    by blast+
  from b d have c: "map type (tr_issues res) = [''Accessibility error: image-alt'', ''Performance Issue'']"
    by (simp add: example_issues image_alt_type warning_issue_def)
  from example_starts a r b c show ?thesis
    by (intro conjI exI) assumption+
qed

text \<open>
  C1, counterexample. The order the claim states fails on the example run: the accessibility tester is called
  first and its issue comes first in the aggregated list, where the claimed order would put
  it last.
\<close>

theorem functional_first_order_counterexample:
  "phases_of (trace (snd (runTests example_world example_url)))
     = [Accessibility, Functional, Performance, Responsive]
   \<and> phases_of (trace (snd (runTests example_world example_url)))
     \<noteq> [Functional, Responsive, Performance, Accessibility]
   \<and> map_option (\<lambda>res. map type (tr_issues res))
        (outcome_results (fst (runTests example_world example_url)))
      = Some [''Accessibility error: image-alt'', ''Performance Issue'']
   \<and> map type
        (issues_or_empty (functional (phase_results example_world example_url))
         @ issues_or_empty (responsive (phase_results example_world example_url))
         @ issues_or_empty (performance (phase_results example_world example_url))
         @ issues_or_empty (accessibility (phase_results example_world example_url)))
      = [''Performance Issue'', ''Accessibility error: image-alt'']"
  by (simp add: runTests_started [OF example_starts] finished_session_def conclude_def
      example_report collect_issues_def example_issues image_alt_type warning_issue_def
      Let_def)



text \<open>
  C3. When the URL parses and the browser starts, but the navigation gets no response or a
  status of 400 or more, \<^verbatim>\<open>navigateTo\<close> answers false and the run returns
  \<^verbatim>\<open>{success: false, error}\<close> with no results; no tester is called, and the browser is
  closed before the run returns.
\<close>

theorem navigation_failure_aborts:
  assumes "parse_url w url = Inr h" and "launch w = LaunchOk"
    and "goto w = NoResponse \<or> (\<exists>status. goto w = Response status \<and> status \<ge> 400)"
  shows "fst (navigateTo (goto w) url s) = False
    \<and> fst (runTests w url) = RunError (''Failed to navigate to '' @ url)
    \<and> outcome_success (fst (runTests w url)) = False
    \<and> outcome_results (fst (runTests w url)) = None
    \<and> phases_of (trace (snd (runTests w url))) = []
    \<and> trace (snd (runTests w url)) = [BrowserLaunch, PageGoto url, BrowserClose]
    \<and> browser (snd (runTests w url)) = False"
  using assms
  by (auto simp add: runTests_def try_block_def initialize_def navigateTo_def
      no_session_def close_def Let_def)

theorem navigation_failure_aborts_witness:
  "parse_url world_404 example_url = Inr ''example.com'' \<and> launch world_404 = LaunchOk
   \<and> goto world_404 = Response 404 \<and> (404::nat) \<ge> 400
   \<and> fst (runTests world_404 example_url) = RunError ''Failed to navigate to https://example.com''
   \<and> outcome_results (fst (runTests world_404 example_url)) = None
   \<and> phases_of (trace (snd (runTests world_404 example_url))) = []
   \<and> trace (snd (runTests world_404 example_url))
       = [BrowserLaunch, PageGoto ''https://example.com'', BrowserClose]
   \<and> browser (snd (runTests world_404 example_url)) = False"
proof -
  have h1: "parse_url world_404 example_url = Inr ''example.com''"
    by (simp add: world_404_def example_world_def example_parse_def)
  have h2: "launch world_404 = LaunchOk"
    by (simp add: world_404_def example_world_def)
  have h3: "goto world_404 = Response 404"
    by (simp add: world_404_def)
  have h4: "goto world_404 = NoResponse \<or> (\<exists>status. goto world_404 = Response status \<and> status \<ge> 400)"
    using h3 by simp
  from navigation_failure_aborts [OF h1 h2 h4] h1 h2 h3 show ?thesis
    by (simp add: example_url_def)
qed




text \<open>
  C5. When a run returns results, its summary has \<^verbatim>\<open>totalTests\<close> 4, \<^verbatim>\<open>passedTests\<close> is
  the number of testers whose result has \<^verbatim>\<open>success\<close> true, \<^verbatim>\<open>failedTests\<close> the number of
  those with \<^verbatim>\<open>success\<close> false, and the two add up to 4.
\<close>

theorem summary_counts:
  assumes "fst (runTests w url) = RunOk ok res paths"
  shows "totalTests (tr_summary res) = 4
    \<and> passedTests (tr_summary res) + failedTests (tr_summary res) = 4
    \<and> passedTests (tr_summary res)
        = (if success (accessibility (tr_details res)) then 1 else 0)
          + (if success (functional (tr_details res)) then 1 else 0)
          + (if success (performance (tr_details res)) then 1 else 0)
          + (if success (responsive (tr_details res)) then 1 else 0)
    \<and> failedTests (tr_summary res)
        = (if success (accessibility (tr_details res)) then 0 else 1)
          + (if success (functional (tr_details res)) then 0 else 1)
          + (if success (performance (tr_details res)) then 0 else 1)
          + (if success (responsive (tr_details res)) then 0 else 1)"
  using runTests_RunOk(4) [OF assms]
  by (simp add: summarize_def)

theorem summary_counts_witness:
  "\<exists>ok res paths. fst (runTests example_world example_url) = RunOk ok res paths
     \<and> totalTests (tr_summary res) = 4
     \<and> passedTests (tr_summary res) + failedTests (tr_summary res) = 4
     \<and> passedTests (tr_summary res) = 2 \<and> failedTests (tr_summary res) = 2"
proof -
  obtain ok res paths where r: "fst (runTests example_world example_url) = RunOk ok res paths"
    using example_run_ok by blast
  from runTests_RunOk(4) [OF r] have d: "tr_details res = phase_results example_world example_url"
    by simp
  from summary_counts [OF r] d
  have "totalTests (tr_summary res) = 4
     \<and> passedTests (tr_summary res) + failedTests (tr_summary res) = 4
     \<and> passedTests (tr_summary res) = 2 \<and> failedTests (tr_summary res) = 2"
    by (simp add: example_flags)
  with r show ?thesis by blast
qed

text \<open>
  C6. For \<open>mn < mx\<close> the score \<open>calculateScore x mn mx\<close> lies in \<open>[0, 1]\<close>, does not increase
  when \<open>x\<close> grows, is \<open>1\<close> for every \<open>x \<le> mn\<close> and \<open>0\<close> for every \<open>x \<ge> mx\<close>. The
  numbers are reals: the rounding of JavaScript's doubles is left out.
\<close>

theorem calculateScore_properties:
  assumes "mn < mx"
  shows "0 \<le> calculateScore x mn mx \<and> calculateScore x mn mx \<le> 1
    \<and> (x \<le> y \<longrightarrow> calculateScore y mn mx \<le> calculateScore x mn mx)
    \<and> (x \<le> mn \<longrightarrow> calculateScore x mn mx = 1)
    \<and> (mx \<le> x \<longrightarrow> calculateScore x mn mx = 0)"
proof -
  have pos: "0 < mx - mn" using assms by simp
  have bounds: "0 \<le> calculateScore x mn mx \<and> calculateScore x mn mx \<le> 1"
    by (simp add: calculateScore_def Let_def)
  have mono: "calculateScore y mn mx \<le> calculateScore x mn mx" if "x \<le> y"
  proof -
    have "(x - mn) / (mx - mn) \<le> (y - mn) / (mx - mn)"
      using that pos by (simp add: divide_right_mono)
    then show ?thesis
      by (simp add: calculateScore_def Let_def min_def max_def)
  qed
  have low: "calculateScore x mn mx = 1" if "x \<le> mn"
  proof -
    have "(x - mn) / (mx - mn) \<le> 0"
      using that pos by (simp add: divide_nonpos_pos)
    then show ?thesis
      by (simp add: calculateScore_def Let_def min_def max_def)
  qed
  have high: "calculateScore x mn mx = 0" if "mx \<le> x"
  proof -
    have "1 \<le> (x - mn) / (mx - mn)"
      using that pos by (simp add: le_divide_eq)
    then show ?thesis
      by (simp add: calculateScore_def Let_def min_def max_def)
  qed
  from bounds mono low high show ?thesis by blast
qed

theorem calculateScore_properties_witness:
  "(1000::real) < 3000 \<and> (1500::real) \<le> 2500
    \<and> 0 \<le> calculateScore 1500 1000 3000 \<and> calculateScore 1500 1000 3000 \<le> 1
    \<and> calculateScore 2500 1000 3000 \<le> calculateScore 1500 1000 3000
    \<and> calculateScore 500 1000 3000 = 1 \<and> calculateScore 3500 1000 3000 = 0"
proof -
  have h: "(1000::real) < 3000" by simp
  have m: "(1500::real) \<le> 2500" by simp
  have l: "(500::real) \<le> 1000" by simp
  have u: "(3000::real) \<le> 3500" by simp
  from calculateScore_properties [OF h, of 1500 2500] m
  have a: "0 \<le> calculateScore 1500 1000 3000 \<and> calculateScore 1500 1000 3000 \<le> 1
      \<and> calculateScore 2500 1000 3000 \<le> calculateScore 1500 1000 3000"
    by blast
  from calculateScore_properties [OF h, of 500 500] l
  have b: "calculateScore 500 1000 3000 = 1" by blast
  from calculateScore_properties [OF h, of 3500 3500] u
  have c: "calculateScore 3500 1000 3000 = 0" by blast
  from h m a b c show ?thesis by blast
qed

text \<open>
  C7 (as the code has it). A performance run under the thresholds of \<^verbatim>\<open>config.js\<close> that
  measures a load time of 4000 ms and a first contentful paint time of 1500 ms, with 50
  resources of at most 3 MiB in total, returns \<^verbatim>\<open>success: false\<close> and three issues: "Slow
  Page Load", then "Performance Issue" for the performance score (60% under the threshold of
  70%), then "Performance Issue" for the accessibility score (85% under the threshold of 90%).
\<close>

theorem performance_scenario_B:
  assumes "metrics (performance_runTests config_performance_thresholds True (Inr d)) = Some m"
    and "loadTime m = 4000" and "firstContentfulPaint m = 1500"
    and "resourceCount m = 50" and "totalResourceSize m \<le> 3 * 1024 * 1024"
  shows "issues (performance_runTests config_performance_thresholds True (Inr d))
      = Some [warning_issue ''Slow Page Load'' ''Page load time is slow: 4000ms''
                ''Optimize page resources and server response time'',
              warning_issue ''Performance Issue''
                ''performance score (60%) is below threshold (70%)''
                ''Improve performance by following web performance best practices'',
              warning_issue ''Performance Issue''
                ''accessibility score (85%) is below threshold (90%)''
                ''Improve accessibility by following web performance best practices'']
    \<and> success (performance_runTests config_performance_thresholds True (Inr d)) = False"
proof -
  define mo where "mo = metrics_object (cdp_metrics d)"
  define sz where "sz = foldl (\<lambda>t r. t + or_zero (transferSize r)) 0 (resourceTimings d)"
  from assms(1)
  have m: "m = \<lparr>domContentLoaded = or_zero (mo ''DomContentLoaded'') - or_zero (mo ''NavigationStart''),
        firstPaint = or_zero (mo ''FirstPaint'') - or_zero (mo ''NavigationStart''),
        firstContentfulPaint = or_zero (mo ''FirstContentfulPaint'') - or_zero (mo ''NavigationStart''),
        loadTime = or_zero (mo ''LoadEventEnd'') - or_zero (mo ''NavigationStart''),
        resourceCount = length (resourceTimings d), totalResourceSize = sz\<rparr>"
    by (simp add: performance_runTests_def Let_def mo_def sz_def)
  from m assms(2) have l: "or_zero (mo ''LoadEventEnd'') - or_zero (mo ''NavigationStart'') = 4000"
    by simp
  from m assms(3)
  have f: "or_zero (mo ''FirstContentfulPaint'') - or_zero (mo ''NavigationStart'') = 1500"
    by simp
  from m assms(4) have n: "length (resourceTimings d) = 50" by simp
  from m assms(5) have t: "sz \<le> 3 * 1024 * 1024" by simp
  have found: "issues (performance_runTests config_performance_thresholds True (Inr d))
      = Some (performance_issues config_performance_thresholds 4000 1500 sz 50
                (performance_scores 1500 4000))"
    using l f n by (simp add: performance_runTests_def Let_def mo_def sz_def)
  have succ: "success (performance_runTests config_performance_thresholds True (Inr d))
      = (length (performance_issues config_performance_thresholds 4000 1500 sz 50
                   (performance_scores 1500 4000)) = 0)"
    using l f n by (simp add: performance_runTests_def Let_def mo_def sz_def)
  from found succ show ?thesis by (simp add: scenario_B_found [OF t])
qed

theorem performance_scenario_B_witness:
  "metrics (performance_runTests config_performance_thresholds True (Inr scenario_B))
     = Some \<lparr>domContentLoaded = 1200, firstPaint = 1400, firstContentfulPaint = 1500,
             loadTime = 4000, resourceCount = 50, totalResourceSize = 1048576\<rparr>
   \<and> issues (performance_runTests config_performance_thresholds True (Inr scenario_B))
      = Some [warning_issue ''Slow Page Load'' ''Page load time is slow: 4000ms''
                ''Optimize page resources and server response time'',
              warning_issue ''Performance Issue''
                ''performance score (60%) is below threshold (70%)''
                ''Improve performance by following web performance best practices'',
              warning_issue ''Performance Issue''
                ''accessibility score (85%) is below threshold (90%)''
                ''Improve accessibility by following web performance best practices'']
   \<and> success (performance_runTests config_performance_thresholds True (Inr scenario_B)) = False"
  using performance_scenario_B [OF scenario_B_metrics] scenario_B_metrics by simp

text \<open>
  C7, counterexample. The run of scenario B does not produce exactly one issue: it produces
  three.
\<close>

theorem one_issue_counterexample:
  "metrics (performance_runTests config_performance_thresholds True (Inr scenario_B))
     = Some \<lparr>domContentLoaded = 1200, firstPaint = 1400, firstContentfulPaint = 1500,
             loadTime = 4000, resourceCount = 50, totalResourceSize = 1048576\<rparr>
   \<and> map type (issues_or_empty
        (performance_runTests config_performance_thresholds True (Inr scenario_B)))
      = [''Slow Page Load'', ''Performance Issue'', ''Performance Issue'']
   \<and> length (issues_or_empty
        (performance_runTests config_performance_thresholds True (Inr scenario_B))) = 3
   \<and> length (issues_or_empty
        (performance_runTests config_performance_thresholds True (Inr scenario_B))) \<noteq> 1"
  by (simp add: scenario_B_metrics scenario_B_issues scenario_B_found warning_issue_def)

text \<open>
  C8. When the audit returns results (the engine is in place and reports no error), the
  phase's \<^verbatim>\<open>success\<close> is true exactly when the list of violations is empty, whatever the
  incomplete findings are; with \<^verbatim>\<open>includeWarnings\<close> the issue list is the violations as
  errors followed by the incomplete findings as warnings.
\<close>

theorem accessibility_success_iff_no_violations:
  assumes "injectAxeCore pg = Inr u" and "axe_run pg = Inr audit"
    and "\<not> truthy (axe_error audit)"
  shows "success (accessibility_runTests includeWarnings pg)
      = (or_empty (violations audit) = [])
    \<and> issues (accessibility_runTests True pg)
      = Some (formatIssues (or_empty (violations audit)) Error
              @ formatIssues (or_empty (incomplete audit)) Warning)
    \<and> map severity (formatIssues (or_empty (incomplete audit)) Warning)
      = replicate (length (or_empty (incomplete audit))) Warning
    \<and> success (accessibility_runTests True
         (pg\<lparr>axe_run := Inr (AxeResults (axe_error audit) (violations audit) other)\<rparr>))
      = success (accessibility_runTests True pg)"
proof -
  have sev: "map severity (formatIssues fs Warning) = replicate (length fs) Warning" for fs
    by (induction fs) (simp_all add: formatIssues_def formatIssue_def Let_def)
  have inj: "injectAxeCore (pg\<lparr>axe_run := x\<rparr>) = injectAxeCore pg" for x
    by (simp add: injectAxeCore_def split: sum.splits)
  from assms sev inj show ?thesis
    by (simp add: accessibility_runTests_def Let_def)
qed

theorem accessibility_success_iff_no_violations_witness:
  "injectAxeCore scenario_E = Inr ()
   \<and> axe_run scenario_E = Inr (AxeResults None (Some []) (Some [color_contrast, image_alt]))
   \<and> success (accessibility_runTests True scenario_E) = True
   \<and> issues (accessibility_runTests True scenario_E)
       = Some [formatIssue Warning color_contrast, formatIssue Warning image_alt]
   \<and> map severity (issues_or_empty (accessibility_runTests True scenario_E)) = [Warning, Warning]"
proof -
  have h1: "injectAxeCore scenario_E = Inr ()"
    by (simp add: injectAxeCore_def scenario_E_def)
  have h2: "axe_run scenario_E = Inr (AxeResults None (Some []) (Some [color_contrast, image_alt]))"
    by (simp add: scenario_E_def)
  have h3: "\<not> truthy (axe_error (AxeResults None (Some []) (Some [color_contrast, image_alt])))"
    by simp
  from accessibility_success_iff_no_violations [OF h1 h2 h3, of True None]
  have a: "success (accessibility_runTests True scenario_E) = True"
    and b: "issues (accessibility_runTests True scenario_E)
       = Some [formatIssue Warning color_contrast, formatIssue Warning image_alt]"
    and c: "map severity (formatIssues [color_contrast, image_alt] Warning) = [Warning, Warning]"
    by (simp_all add: formatIssues_def)
  from b c have d: "map severity (issues_or_empty (accessibility_runTests True scenario_E))
      = [Warning, Warning]"
    by (simp add: issues_or_empty_def formatIssues_def)
  from h1 h2 a b d show ?thesis by simp
qed

text \<open>
  C9. For an element the selector finds, the clickability predicate is a function of the
  element's box, its computed style and the hit test at the centre of the box: it is true
  exactly when width and height are not zero, the element is not hidden by
  \<^verbatim>\<open>visibility\<close>, \<^verbatim>\<open>display\<close> or \<^verbatim>\<open>opacity\<close>, and the element is not covered. So it is
  false for an element of zero width or zero height, false for a hidden element, and false
  when the element hit at the centre is neither the element nor one of its descendants.
\<close>

theorem clickability_predicate:
  assumes "querySelector doc selector = Some e"
  shows "isElementClickable (Inr doc) selector
      = (width (getBoundingClientRect doc e) \<noteq> 0 \<and> height (getBoundingClientRect doc e) \<noteq> 0
         \<and> \<not> hidden (getComputedStyle doc e) \<and> \<not> covered doc e)
    \<and> (width (getBoundingClientRect doc e) = 0 \<or> height (getBoundingClientRect doc e) = 0
         \<longrightarrow> isElementClickable (Inr doc) selector = False)
    \<and> (hidden (getComputedStyle doc e) \<longrightarrow> isElementClickable (Inr doc) selector = False)
    \<and> (covered doc e \<longrightarrow> isElementClickable (Inr doc) selector = False)"
proof -
  have c: "isElementClickable (Inr doc) selector
      = (width (getBoundingClientRect doc e) \<noteq> 0 \<and> height (getBoundingClientRect doc e) \<noteq> 0
         \<and> \<not> hidden (getComputedStyle doc e) \<and> \<not> covered doc e)"
    using assms
    by (auto simp add: isElementClickable_def hidden_def covered_def center_hit_def contains_def
        Let_def split: option.splits)
  then show ?thesis by simp
qed

theorem clickability_predicate_witness:
  "querySelector example_document ''button'' = Some 1
   \<and> covered example_document 1
   \<and> isElementClickable (Inr example_document) ''button'' = False
   \<and> querySelector example_document ''a'' = Some 3
   \<and> isElementClickable (Inr example_document) ''a'' = True
   \<and> isElementClickable
        (Inr (example_document\<lparr>getBoundingClientRect :=
                (\<lambda>e. \<lparr>left = 0, top = 100, width = 0, height = 20\<rparr>)\<rparr>)) ''a'' = False
   \<and> isElementClickable
        (Inr (example_document\<lparr>getComputedStyle :=
                (\<lambda>e. \<lparr>visibility = ''visible'', display = ''none'', opacity = ''1''\<rparr>)\<rparr>)) ''a''
      = False"
proof -
  have b: "querySelector example_document ''button'' = Some 1"
    by (simp add: example_document_def)
  have a: "querySelector example_document ''a'' = Some 3"
    by (simp add: example_document_def)
  have cb: "covered example_document 1"
    by (simp add: covered_def center_hit_def descendants_def example_document_def Let_def)
  have ca: "\<not> covered example_document 3"
    by (simp add: covered_def center_hit_def descendants_def example_document_def Let_def)
  from clickability_predicate [OF b] cb
  have r1: "isElementClickable (Inr example_document) ''button'' = False" by simp
  from clickability_predicate [OF a] ca
  have r2: "isElementClickable (Inr example_document) ''a'' = True"
    by (simp add: example_document_def hidden_def)
  have a0: "querySelector (example_document\<lparr>getBoundingClientRect :=
                (\<lambda>e. \<lparr>left = 0, top = 100, width = 0, height = 20\<rparr>)\<rparr>) ''a'' = Some 3"
    by (simp add: example_document_def)
  from clickability_predicate [OF a0]
  have r3: "isElementClickable
        (Inr (example_document\<lparr>getBoundingClientRect :=
                (\<lambda>e. \<lparr>left = 0, top = 100, width = 0, height = 20\<rparr>)\<rparr>)) ''a'' = False"
    by simp
  have ah: "querySelector (example_document\<lparr>getComputedStyle :=
                (\<lambda>e. \<lparr>visibility = ''visible'', display = ''none'', opacity = ''1''\<rparr>)\<rparr>) ''a''
      = Some 3"
    by (simp add: example_document_def)
  from clickability_predicate [OF ah]
  have r4: "isElementClickable
        (Inr (example_document\<lparr>getComputedStyle :=
                (\<lambda>e. \<lparr>visibility = ''visible'', display = ''none'', opacity = ''1''\<rparr>)\<rparr>)) ''a''
      = False"
    by (simp add: hidden_def)
  from b cb r1 a r2 r3 r4 show ?thesis by simp
qed

text \<open>
  C10 (as the code has it). There is a run in which the accessibility result has
  \<^verbatim>\<open>success: false\<close> and an \<^verbatim>\<open>error\<close> but no \<^verbatim>\<open>issues\<close> field, the aggregation takes
  an empty list for it, so that the aggregated list holds the issues of the other three
  testers only, and \<^verbatim>\<open>failedTests\<close> is at least 1. That run returns \<^verbatim>\<open>success: false\<close>, as
  every run does: the performance tester always reports an issue under the thresholds of
  \<^verbatim>\<open>config.js\<close>.
\<close>

theorem silent_failure_run:
  "(\<exists>w url res paths.
      fst (runTests w url) = RunOk False res paths
      \<and> silent_failure (accessibility (tr_details res))
      \<and> 1 \<le> failedTests (tr_summary res)
      \<and> tr_issues res
          = issues_or_empty (functional (tr_details res))
            @ issues_or_empty (performance (tr_details res))
            @ issues_or_empty (responsive (tr_details res))
      \<and> map type (tr_issues res) = [''Performance Issue''])
   \<and> (\<forall>w url. outcome_success (fst (runTests w url)) = False)"
proof -
  let ?d = "phase_results world_axe_fails example_url"
  let ?res = "\<lparr>tr_url = example_url, tr_timestamp = results_clock world_axe_fails,
               tr_summary = summarize ?d, tr_performance = scores (performance ?d),
               tr_issues = collect_issues ?d, tr_details = ?d\<rparr>"
  let ?paths = "ReportPaths (Some ''reports/example.com.json'') (Some ''reports/example.com.html'')"
  have acc: "accessibility ?d
      = \<lparr>success = False, error = Some ''axe failed'', issues = None, rawResults = None\<rparr>"
    by (simp add: phase_results_eq world_axe_fails_def axe_fails_result)
  have others: "issues_or_empty (functional ?d) = []"
    "issues_or_empty (performance ?d)
       = [warning_issue ''Performance Issue''
            ''accessibility score (85%) is below threshold (90%)''
            ''Improve accessibility by following web performance best practices'']"
    "issues_or_empty (responsive ?d) = []"
      apply (simp add: phase_results_eq world_axe_fails_def example_world_def example_functional)
     apply (simp add: phase_results_eq world_axe_fails_def example_world_def fast_page_issues)
    apply (simp add: phase_results_eq world_axe_fails_def example_world_def quiet_responsive
        issues_or_empty_def)
    done
  have acc_none: "issues_or_empty (accessibility ?d) = []"
    by (simp add: acc issues_or_empty_def)
  have rep: "report world_axe_fails = Inr ?paths"
    by (simp add: world_axe_fails_def example_report)
  have run: "fst (runTests world_axe_fails example_url) = RunOk False ?res ?paths"
    using collect_issues_nonempty [of world_axe_fails example_url]
    by (simp add: runTests_started [OF axe_fails_starts] conclude_def rep Let_def)
  have sf: "silent_failure (accessibility (tr_details ?res))"
    by (simp add: silent_failure_def acc)
  have failed: "1 \<le> failedTests (tr_summary ?res)"
    by (simp add: summarize_def acc)
  have agg: "tr_issues ?res
          = issues_or_empty (functional (tr_details ?res))
            @ issues_or_empty (performance (tr_details ?res))
            @ issues_or_empty (responsive (tr_details ?res))"
    by (simp add: collect_issues_def acc_none)
  have types: "map type (tr_issues ?res) = [''Performance Issue'']"
    by (simp add: collect_issues_def acc_none others warning_issue_def)
  have ex: "\<exists>w url res paths.
      fst (runTests w url) = RunOk False res paths
      \<and> silent_failure (accessibility (tr_details res))
      \<and> 1 \<le> failedTests (tr_summary res)
      \<and> tr_issues res
          = issues_or_empty (functional (tr_details res))
            @ issues_or_empty (performance (tr_details res))
            @ issues_or_empty (responsive (tr_details res))
      \<and> map type (tr_issues res) = [''Performance Issue'']"
    using run sf failed agg types by (intro exI conjI) assumption+
  have all: "\<forall>w url. outcome_success (fst (runTests w url)) = False"
    using never_success by simp
  from ex all show ?thesis by (rule conjI)
qed

text \<open>
  C10, counterexample. No run returns \<^verbatim>\<open>success: true\<close>; in particular none that has a
  result without issues list and a failed test.
\<close>

theorem silent_failure_success_counterexample:
  "\<not> (\<exists>w url res paths.
        fst (runTests w url) = RunOk True res paths
        \<and> (silent_failure (accessibility (tr_details res))
            \<or> silent_failure (functional (tr_details res))
            \<or> silent_failure (performance (tr_details res))
            \<or> silent_failure (responsive (tr_details res)))
        \<and> 1 \<le> failedTests (tr_summary res))"
proof
  assume "\<exists>w url res paths.
        fst (runTests w url) = RunOk True res paths
        \<and> (silent_failure (accessibility (tr_details res))
            \<or> silent_failure (functional (tr_details res))
            \<or> silent_failure (performance (tr_details res))
            \<or> silent_failure (responsive (tr_details res)))
        \<and> 1 \<le> failedTests (tr_summary res)"
  then obtain w url res paths where "fst (runTests w url) = RunOk True res paths"
    by blast
  then have "outcome_success (fst (runTests w url))" by simp
  with never_success [of w url] show False by simp
qed

end
